theory Spec2Isabelle
  imports Complex_Main "HOL-Library.Word"
begin

unbundle bit_operations_syntax

section \<open>BME280 capture decoder (bme\_280\_data.py)\<close>

text \<open>
  The script decodes one byte buffer \<open>data\<close>: a calibration block behind the marker
  byte \<open>0xFE\<close>, then 9-byte sample frames behind the marker \<open>0xFF\<close>.
  A Python \<open>bytes\<close> value is a sequence of integers in \<open>0..255\<close>, so a buffer is a list
  of 8-bit words; every element is read as an unbounded Python integer (\<open>uint\<close>).
  Python integers are \<open>int\<close>: \<open><<\<close> is \<open>push_bit\<close>, \<open>>>\<close> is \<open>drop_bit\<close>
  (which rounds towards minus infinity on negative values, as Python's shift does),
  \<open>|\<close> and \<open>&\<close> are \<open>OR\<close> and \<open>AND\<close>, and \<open>//\<close> is \<open>div\<close>.
  The three results of a frame are Python floats; the model keeps the exact quotient
  of the last division as a real number.
\<close>

type_synonym byte = "8 word"

datatype py_error = ValueError | IndexError | ZeroDivisionError

subsection \<open>Calibration block (lines 62 to 95)\<close>

definition u16 :: "int \<Rightarrow> int \<Rightarrow> int" where
  "u16 lsb msb = (push_bit 8 msb) OR lsb"

definition s16 :: "int \<Rightarrow> int \<Rightarrow> int" where
  "s16 lsb msb =
     (let val = (push_bit 8 msb) OR lsb
      in if val AND 0x8000 \<noteq> 0 then val - 65536 else val)"

record calibration =
  dig_T1 :: int
  dig_T2 :: int
  dig_T3 :: int
  dig_P1 :: int
  dig_P2 :: int
  dig_P3 :: int
  dig_P4 :: int
  dig_P5 :: int
  dig_P6 :: int
  dig_P7 :: int
  dig_P8 :: int
  dig_P9 :: int
  dig_H1 :: int
  dig_H2 :: int
  dig_H3 :: int
  dig_H4 :: int
  dig_H5 :: int
  dig_H6 :: int

text \<open>\<open>calib[k]\<close> for an index that the caller has checked to be in range.\<close>

definition cb :: "byte list \<Rightarrow> nat \<Rightarrow> int" where
  "cb calib k = uint (calib ! k)"

text \<open>
  Lines 76 to 95, for a slice \<open>calib\<close> in which every index up to 31 is in range.
  \<open>struct.unpack("b", ...)\<close> reads one byte as a signed 8-bit value (\<open>sint\<close>).
\<close>

definition calib_fields :: "byte list \<Rightarrow> calibration" where
  "calib_fields calib =
     \<lparr> dig_T1 = u16 (cb calib 0) (cb calib 1),
       dig_T2 = s16 (cb calib 2) (cb calib 3),
       dig_T3 = s16 (cb calib 4) (cb calib 5),
       dig_P1 = u16 (cb calib 6) (cb calib 7),
       dig_P2 = s16 (cb calib 8) (cb calib 9),
       dig_P3 = s16 (cb calib 10) (cb calib 11),
       dig_P4 = s16 (cb calib 12) (cb calib 13),
       dig_P5 = s16 (cb calib 14) (cb calib 15),
       dig_P6 = s16 (cb calib 16) (cb calib 17),
       dig_P7 = s16 (cb calib 18) (cb calib 19),
       dig_P8 = s16 (cb calib 20) (cb calib 21),
       dig_P9 = s16 (cb calib 22) (cb calib 23),
       dig_H1 = cb calib 24,
       dig_H2 = s16 (cb calib 25) (cb calib 26),
       dig_H3 = cb calib 27,
       dig_H4 = (push_bit 4 (cb calib 28)) OR ((cb calib 29) AND 0x0F),
       dig_H5 = (push_bit 4 (cb calib 30)) OR (drop_bit 4 (cb calib 29)),
       dig_H6 = sint (calib ! 31) \<rparr>"

text \<open>
  Lines 62 to 95. \<open>data[0]\<close> raises \<open>IndexError\<close> on an empty buffer; a first byte other
  than \<open>0xFE\<close> raises \<open>ValueError\<close>. The slice \<open>data[1:33]\<close> never raises, it is just
  shorter when the buffer is; the reads \<open>calib[0]\<close> to \<open>calib[31]\<close> that follow are the
  only other statements that can raise, and the first one out of range raises
  \<open>IndexError\<close>: that happens exactly when the slice has fewer than 32 bytes.
\<close>

definition parse_calibration :: "byte list \<Rightarrow> py_error + calibration" where
  "parse_calibration data =
     (if data = [] then Inl IndexError
      else if data ! 0 \<noteq> 0xFE then Inl ValueError
      else
        let calib = take 32 (drop 1 data)
        in if length calib < 32 then Inl IndexError
           else Inr (calib_fields calib))"

subsection \<open>Compensation formulas (lines 119 to 151)\<close>

text \<open>Lines 120 to 122.\<close>

definition t_fine_of :: "calibration \<Rightarrow> int \<Rightarrow> int" where
  "t_fine_of c adc_T =
     (let var1 = drop_bit 11 (((drop_bit 3 adc_T) - (push_bit 1 (dig_T1 c))) * dig_T2 c);
          var2 = drop_bit 14
                   ((drop_bit 12 (((drop_bit 4 adc_T) - dig_T1 c) * ((drop_bit 4 adc_T) - dig_T1 c)))
                    * dig_T3 c)
      in var1 + var2)"

text \<open>Lines 123 and 124.\<close>

definition temperature_of :: "int \<Rightarrow> real" where
  "temperature_of t_fine =
     (let T = drop_bit 8 (t_fine * 5 + 128)
      in real_of_int T / 100)"

text \<open>Lines 127 to 132: the pair \<open>(var1, var2)\<close> that reaches the test \<open>var1 != 0\<close>.\<close>

definition press_vars :: "calibration \<Rightarrow> int \<Rightarrow> int \<times> int" where
  "press_vars c t_fine =
     (let var1 = t_fine - 128000;
          var2 = var1 * var1 * dig_P6 c;
          var2 = var2 + (push_bit 17 (var1 * dig_P5 c));
          var2 = var2 + (push_bit 35 (dig_P4 c));
          var1 = (drop_bit 8 (var1 * var1 * dig_P3 c)) + (push_bit 12 (var1 * dig_P2 c));
          var1 = drop_bit 33 (((push_bit 47 1) + var1) * dig_P1 c)
      in (var1, var2))"

text \<open>Python's \<open>//\<close> on integers: floor division, \<open>ZeroDivisionError\<close> on a zero divisor.\<close>

definition floordiv :: "int \<Rightarrow> int \<Rightarrow> py_error + int" where
  "floordiv a b = (if b = 0 then Inl ZeroDivisionError else Inr (a div b))"

text \<open>Line 136, the dividend: \<open>((p << 31) - var2) * 3125\<close> with \<open>p = 1048576 - adc_P\<close>.\<close>

definition press_dividend :: "int \<Rightarrow> int \<Rightarrow> int" where
  "press_dividend var2 adc_P =
     (let p = 1048576 - adc_P
      in ((push_bit 31 p) - var2) * 3125)"

text \<open>Lines 135 and 136.\<close>

definition press_quot :: "int \<Rightarrow> int \<Rightarrow> int \<Rightarrow> py_error + int" where
  "press_quot var1 var2 adc_P = floordiv (press_dividend var2 adc_P) var1"

text \<open>Lines 137 to 140, from the quotient \<open>p\<close> of line 136.\<close>

definition press_tail :: "calibration \<Rightarrow> int \<Rightarrow> real" where
  "press_tail c p =
     (let var1 = drop_bit 25 (dig_P9 c * (drop_bit 13 p) * (drop_bit 13 p));
          var2 = drop_bit 19 (dig_P8 c * p);
          p = (drop_bit 8 (p + var1 + var2)) + (push_bit 4 (dig_P7 c))
      in real_of_int p / 25600)"

text \<open>Lines 127 to 142.\<close>

definition pressure_of :: "calibration \<Rightarrow> int \<Rightarrow> int \<Rightarrow> py_error + real" where
  "pressure_of c t_fine adc_P =
     (case press_vars c t_fine of (var1, var2) \<Rightarrow>
        if var1 \<noteq> 0 then
          (case press_quot var1 var2 adc_P of
             Inl e \<Rightarrow> Inl e
           | Inr p \<Rightarrow> Inr (press_tail c p))
        else Inr 0)"

text \<open>Lines 145 to 149: \<open>v_x1\<close> before the clamp.\<close>

definition hum_raw :: "calibration \<Rightarrow> int \<Rightarrow> int \<Rightarrow> int" where
  "hum_raw c t_fine adc_H =
     (let v_x1 = t_fine - 76800;
          v_x1 = (drop_bit 15 ((((push_bit 14 adc_H) - (push_bit 20 (dig_H4 c)) - (dig_H5 c * v_x1)) + 16384)))
                 * (drop_bit 14
                      (((drop_bit 10
                           ((drop_bit 10 (v_x1 * dig_H6 c))
                            * ((drop_bit 11 (v_x1 * dig_H3 c)) + 32768)))
                        + 2097152)
                       * dig_H2 c + 8192));
          v_x1 = v_x1 - (drop_bit 4 ((drop_bit 7 ((drop_bit 15 v_x1) * (drop_bit 15 v_x1))) * dig_H1 c))
      in v_x1)"

text \<open>Line 150.\<close>

definition hum_clamp :: "int \<Rightarrow> int" where
  "hum_clamp v_x1 = max 0 (min v_x1 419430400)"

text \<open>Lines 145 to 151.\<close>

definition humidity_of :: "calibration \<Rightarrow> int \<Rightarrow> int \<Rightarrow> real" where
  "humidity_of c t_fine adc_H =
     (let v_x1 = hum_raw c t_fine adc_H;
          v_x1 = hum_clamp v_x1
      in real_of_int (drop_bit 12 v_x1) / 1024)"

subsection \<open>Frame scan (lines 103 to 157)\<close>

record scan_state =
  i :: nat
  temperatures :: "real list"
  pressures :: "real list"
  humidities :: "real list"

text \<open>\<open>frames[j]\<close> for a cursor \<open>j \<ge> 0\<close>: \<open>IndexError\<close> when out of range.\<close>

definition byte_at :: "byte list \<Rightarrow> nat \<Rightarrow> py_error + int" where
  "byte_at frames j = (if j < length frames then Inr (uint (frames ! j)) else Inl IndexError)"

text \<open>
  Lines 115 to 117. The reads go from \<open>frames[i+1]\<close> up to \<open>frames[i+8]\<close>, so one of
  them raises \<open>IndexError\<close> exactly when \<open>i + 8\<close> is out of range.
\<close>

definition read_adc :: "byte list \<Rightarrow> nat \<Rightarrow> py_error + (int \<times> int \<times> int)" where
  "read_adc frames j =
     (if j + 8 < length frames then
        Inr (((push_bit 12 (uint (frames ! (j + 1)))) OR (push_bit 4 (uint (frames ! (j + 2)))))
               OR (drop_bit 4 (uint (frames ! (j + 3)))),
             ((push_bit 12 (uint (frames ! (j + 4)))) OR (push_bit 4 (uint (frames ! (j + 5)))))
               OR (drop_bit 4 (uint (frames ! (j + 6)))),
             (push_bit 8 (uint (frames ! (j + 7)))) OR (uint (frames ! (j + 8))))
      else Inl IndexError)"

text \<open>Lines 119 to 155 for one ADC triplet: the three values appended to the lists.\<close>

definition compute :: "calibration \<Rightarrow> int \<times> int \<times> int \<Rightarrow> py_error + (real \<times> real \<times> real)" where
  "compute c adc =
     (case adc of (adc_T, adc_P, adc_H) \<Rightarrow>
        let t_fine = t_fine_of c adc_T;
            temperature = temperature_of t_fine
        in case pressure_of c t_fine adc_P of
             Inl e \<Rightarrow> Inl e
           | Inr pressure \<Rightarrow>
               let humidity = humidity_of c t_fine adc_H
               in Inr (temperature, pressure, humidity))"

text \<open>One pass through the body of the \<open>while\<close> loop (lines 111 to 157).\<close>

definition loop_body :: "calibration \<Rightarrow> byte list \<Rightarrow> scan_state \<Rightarrow> py_error + scan_state" where
  "loop_body c frames st =
     (case byte_at frames (i st) of
        Inl e \<Rightarrow> Inl e
      | Inr b \<Rightarrow>
          if b \<noteq> 0xFF then Inr (st\<lparr>i := i st + 1\<rparr>)
          else
            (case read_adc frames (i st) of
               Inl e \<Rightarrow> Inl e
             | Inr adc \<Rightarrow>
                 (case compute c adc of
                    Inl e \<Rightarrow> Inl e
                  | Inr (temperature, pressure, humidity) \<Rightarrow>
                      Inr (st\<lparr>temperatures := temperatures st @ [temperature],
                              pressures := pressures st @ [pressure],
                              humidities := humidities st @ [humidity],
                              i := i st + 9\<rparr>))))"

text \<open>The \<open>while\<close> loop of line 110, from any state.\<close>

function scan_loop :: "calibration \<Rightarrow> byte list \<Rightarrow> scan_state \<Rightarrow> py_error + scan_state" where
  "scan_loop c frames st =
     (if i st + 8 < length frames then
        (case loop_body c frames st of
           Inl e \<Rightarrow> Inl e
         | Inr st' \<Rightarrow> scan_loop c frames st')
      else Inr st)"
  by pat_completeness auto
termination
proof (relation "measure (\<lambda>(c, frames, st). length frames - i st)")
  show "wf (measure (\<lambda>(c, frames, st). length frames - i st))" by simp
next
  fix c :: calibration and frames :: "byte list" and st st' :: scan_state
  assume "i st + 8 < length frames" and "loop_body c frames st = Inr st'"
  then have "i st < i st'"
    by (auto simp: loop_body_def split: sum.splits if_splits prod.splits)
  with \<open>i st + 8 < length frames\<close>
  show "((c, frames, st'), (c, frames, st)) \<in> measure (\<lambda>(c, frames, st). length frames - i st)"
    by simp
qed

declare scan_loop.simps [simp del]

text \<open>Lines 105 to 109: the empty lists and the cursor at 0.\<close>

definition init_state :: scan_state where
  "init_state = \<lparr> i = 0, temperatures = [], pressures = [], humidities = [] \<rparr>"

text \<open>The whole script up to the report: calibration from \<open>data\<close>, then the scan of \<open>data[33:]\<close>.\<close>

definition decode :: "byte list \<Rightarrow> py_error + scan_state" where
  "decode data =
     (case parse_calibration data of
        Inl e \<Rightarrow> Inl e
      | Inr c \<Rightarrow> scan_loop c (drop 33 data) init_state)"

section \<open>Definitions that the statements below use\<close>

subsection \<open>The formulas as the specification words them\<close>

text \<open>
  The temperature path as the specification writes it, with \<open>x = (adc_T >> 4) - T1\<close>
  named first. An arithmetic (sign-preserving) right shift by \<open>n\<close> is the quotient by
  \<open>2 ^ n\<close> rounded towards minus infinity, and a left shift by 1 is a doubling.
\<close>

definition spec_t_fine :: "int \<Rightarrow> int \<Rightarrow> int \<Rightarrow> int \<Rightarrow> int" where
  "spec_t_fine T1 T2 T3 adc_T =
     (let var1 = (((adc_T div 8) - (T1 * 2)) * T2) div 2048;
          x = (adc_T div 16) - T1;
          var2 = (((x * x) div 4096) * T3) div 16384
      in var1 + var2)"

definition spec_temperature :: "int \<Rightarrow> int \<Rightarrow> int \<Rightarrow> int \<Rightarrow> real" where
  "spec_temperature T1 T2 T3 adc_T =
     real_of_int ((spec_t_fine T1 T2 T3 adc_T * 5 + 128) div 256) / 100"


subsection \<open>The values that one frame contributes\<close>

text \<open>The pressure that \<open>pressure_of\<close> returns (shown below never to raise).\<close>

definition pressure_val :: "calibration \<Rightarrow> int \<Rightarrow> int \<Rightarrow> real" where
  "pressure_val c t_fine adc_P =
     (case press_vars c t_fine of (var1, var2) \<Rightarrow>
        if var1 \<noteq> 0 then press_tail c (press_dividend var2 adc_P div var1) else 0)"

definition sample :: "calibration \<Rightarrow> int \<times> int \<times> int \<Rightarrow> real \<times> real \<times> real" where
  "sample c adc =
     (case adc of (adc_T, adc_P, adc_H) \<Rightarrow>
        (temperature_of (t_fine_of c adc_T),
         pressure_val c (t_fine_of c adc_T) adc_P,
         humidity_of c (t_fine_of c adc_T) adc_H))"

subsection \<open>The frames that the scan decodes\<close>

text \<open>The triplet of values appended for a frame whose marker is at cursor \<open>j\<close>.\<close>

definition sample_at :: "calibration \<Rightarrow> byte list \<Rightarrow> nat \<Rightarrow> real \<times> real \<times> real" where
  "sample_at c frames j = sample c (projr (read_adc frames j))"

text \<open>
  The cursor positions, in the order in which the loop of line 110 reaches them from
  cursor \<open>j\<close>, at which it finds the marker and decodes a frame: the control flow of
  the loop without the computation.
\<close>

function frame_starts :: "byte list \<Rightarrow> nat \<Rightarrow> nat list" where
  "frame_starts frames j =
     (if j + 8 < length frames then
        (if frames ! j \<noteq> 0xFF then frame_starts frames (j + 1)
         else j # frame_starts frames (j + 9))
      else [])"
  by pat_completeness auto
termination
  by (relation "measure (\<lambda>(frames, j). length frames - j)") auto

declare frame_starts.simps [simp del]

definition measurements :: "calibration \<Rightarrow> byte list \<Rightarrow> (real \<times> real \<times> real) list" where
  "measurements c frames = map (sample_at c frames) (frame_starts frames 0)"

text \<open>A state with the cursor moved to \<open>k\<close> and the triplets \<open>ms\<close> appended to the three lists.\<close>

definition with_samples :: "scan_state \<Rightarrow> nat \<Rightarrow> (real \<times> real \<times> real) list \<Rightarrow> scan_state" where
  "with_samples st k ms =
     st\<lparr>temperatures := temperatures st @ map fst ms,
        pressures := pressures st @ map (fst \<circ> snd) ms,
        humidities := humidities st @ map (snd \<circ> snd) ms,
        i := k\<rparr>"

subsection \<open>Buffers made of frames and noise\<close>

text \<open>
  A well-formed stretch of a frame buffer: complete frames (the marker \<open>0xFF\<close> and 8
  payload bytes of any content) with noise bytes other than \<open>0xFF\<close> between them.
\<close>

datatype item = Noise byte | Frame "byte list"

fun wf_item :: "item \<Rightarrow> bool" where
  "wf_item (Noise b) = (b \<noteq> 0xFF)"
| "wf_item (Frame payload) = (length payload = 8)"

fun render_item :: "item \<Rightarrow> byte list" where
  "render_item (Noise b) = [b]"
| "render_item (Frame payload) = 0xFF # payload"

definition render :: "item list \<Rightarrow> byte list" where
  "render items = concat (map render_item items)"

fun payloads :: "item list \<Rightarrow> byte list list" where
  "payloads [] = []"
| "payloads (Noise b # items) = payloads items"
| "payloads (Frame payload # items) = payload # payloads items"

text \<open>The triplet of values that a complete frame with this payload stands for.\<close>

definition frame_sample :: "calibration \<Rightarrow> byte list \<Rightarrow> real \<times> real \<times> real" where
  "frame_sample c payload = sample_at c (0xFF # payload) 0"


subsection \<open>Example buffers\<close>

text \<open>
  A calibration block with T1 = 65535, T2 = 32767, P1 = 1 and P6 = 32767 and zeros
  elsewhere: with ADC readings of 0 the dividend of line 136 is negative.
\<close>

definition neg_buf :: "byte list" where
  "neg_buf = [0xFE, 0xFF,0xFF, 0xFF,0x7F, 0,0, 1,0, 0,0, 0,0, 0,0, 0,0, 0xFF,0x7F, 0,0, 0,0, 0,0,
              0, 0,0, 0, 0,0,0, 0]"

definition neg_cal :: calibration where
  "neg_cal = calib_fields (take 32 (drop 1 neg_buf))"


text \<open>A buffer that starts with the calibration marker and stops after two more bytes.\<close>

definition short_buf :: "byte list" where
  "short_buf = [0xFE, 0xC9, 0x6D]"

text \<open>
  The capture of the script (lines 8 to 10): its calibration block and its first two
  frames.
\<close>

definition sample_buf :: "byte list" where
  "sample_buf = [0xFE, 0xC9,0x6D, 0x35,0x67, 0x32,0x00, 0x9F,0x8D, 0x41,0xD6, 0xD0,0x0B,
                 0xE7,0x1F, 0x06,0x00, 0xF9,0xFF, 0xAC,0x26, 0x0A,0xD8, 0xBD,0x10,
                 0x4B, 0x70,0x01, 0x00, 0x13, 0x20, 0x03, 0x1E,
                 0xFF, 0x7F, 0x3E, 0x00, 0x5D, 0x91, 0x00, 0x76, 0xDA,
                 0xFF, 0x7F, 0x48, 0x00, 0x5D, 0x93, 0x00, 0x76, 0xD6]"

definition sample_cal :: calibration where
  "sample_cal = calib_fields (take 32 (drop 1 sample_buf))"

text \<open>The same calibration block with P1 set to 0.\<close>

definition p1zero_buf :: "byte list" where
  "p1zero_buf = [0xFE, 0xC9,0x6D, 0x35,0x67, 0x32,0x00, 0x00,0x00, 0x41,0xD6, 0xD0,0x0B,
                 0xE7,0x1F, 0x06,0x00, 0xF9,0xFF, 0xAC,0x26, 0x0A,0xD8, 0xBD,0x10,
                 0x4B, 0x70,0x01, 0x00, 0x13, 0x20, 0x03, 0x1E]"

definition p1zero_cal :: calibration where
  "p1zero_cal = calib_fields (take 32 (drop 1 p1zero_buf))"

text \<open>The first frame of the capture, its payload, and the frame twice in a row.\<close>

definition genuine_frame :: "byte list" where
  "genuine_frame = [0xFF, 0x7F, 0x3E, 0x00, 0x5D, 0x91, 0x00, 0x76, 0xDA]"

definition genuine_payload :: "byte list" where
  "genuine_payload = [0x7F, 0x3E, 0x00, 0x5D, 0x91, 0x00, 0x76, 0xDA]"

definition two_frames :: "byte list" where
  "two_frames = [0xFF, 0x7F, 0x3E, 0x00, 0x5D, 0x91, 0x00, 0x76, 0xDA,
                 0xFF, 0x7F, 0x3E, 0x00, 0x5D, 0x91, 0x00, 0x76, 0xDA]"


section \<open>Properties\<close>

subsection \<open>The compensation never raises\<close>

lemma pressure_of_val: "pressure_of c t_fine adc_P = Inr (pressure_val c t_fine adc_P)"
  by (simp add: pressure_of_def pressure_val_def press_quot_def floordiv_def split: prod.splits)

lemma compute_sample: "compute c adc = Inr (sample c adc)"
  by (simp add: compute_def sample_def pressure_of_val Let_def split: prod.splits)

subsection \<open>Temperature\<close>

lemma t_fine_spec: "t_fine_of c adc_T = spec_t_fine (dig_T1 c) (dig_T2 c) (dig_T3 c) adc_T"
  by (simp add: t_fine_of_def spec_t_fine_def Let_def drop_bit_eq_div push_bit_eq_mult)

text \<open>
  Claim C1. For every calibration set and every ADC triplet the frame's computation
  succeeds and its temperature is \<open>((t_fine * 5 + 128) >> 8) / 100\<close>, where
  \<open>t_fine = var1 + var2\<close>, \<open>var1 = ((adc_T >> 3) - (T1 << 1)) * T2 >> 11\<close>,
  \<open>x = (adc_T >> 4) - T1\<close> and \<open>var2 = ((x * x) >> 12) * T3 >> 14\<close>, every shift
  being the sign-preserving one on unbounded signed integers. The quotient by 100 is
  the exact one; Python rounds it to the nearest double.
\<close>

theorem temperature_formula:
  "\<exists>p h. compute c (adc_T, adc_P, adc_H)
         = Inr (spec_temperature (dig_T1 c) (dig_T2 c) (dig_T3 c) adc_T, p, h)"
  by (simp add: compute_sample sample_def temperature_of_def spec_temperature_def
      t_fine_spec drop_bit_eq_div)

subsection \<open>The packed fields H4 and H5\<close>









subsection \<open>Pressure: the division\<close>

lemma neg_cal_fields:
  "neg_cal = \<lparr> dig_T1 = 65535, dig_T2 = 32767, dig_T3 = 0, dig_P1 = 1, dig_P2 = 0,
        dig_P3 = 0, dig_P4 = 0, dig_P5 = 0, dig_P6 = 32767, dig_P7 = 0,
        dig_P8 = 0, dig_P9 = 0, dig_H1 = 0, dig_H2 = 0, dig_H3 = 0,
        dig_H4 = 0, dig_H5 = 0, dig_H6 = 0 \<rparr>"
  by (simp add: neg_cal_def neg_buf_def calib_fields_def cb_def u16_def s16_def
      push_bit_eq_mult drop_bit_eq_div)

lemma neg_cal_parsed: "parse_calibration neg_buf = Inr neg_cal"
  by (simp add: parse_calibration_def neg_cal_def neg_buf_def)

lemma neg_t_fine: "t_fine_of neg_cal 0 = - 2097057"
  by (simp add: neg_cal_fields t_fine_of_def push_bit_eq_mult drop_bit_eq_div)

lemma neg_press_vars: "press_vars neg_cal (- 2097057) = (16384, 162225440831009983)"
  by (simp add: neg_cal_fields press_vars_def push_bit_eq_mult drop_bit_eq_div)

text \<open>
  Claim C3. Whenever the divisor \<open>var1\<close> of line 136 is not zero, the quotient of
  \<open>((p << 31) - var2) * 3125\<close> by \<open>var1\<close> is the floor of the exact rational quotient,
  whatever the signs of dividend and divisor, and the pressure is computed from that
  quotient.
\<close>

theorem pressure_division_floor:
  assumes "press_vars c t_fine = (var1, var2)" and "var1 \<noteq> 0"
  shows "press_quot var1 var2 adc_P
           = Inr \<lfloor>real_of_int (press_dividend var2 adc_P) / real_of_int var1\<rfloor>
         \<and> pressure_of c t_fine adc_P
           = Inr (press_tail c \<lfloor>real_of_int (press_dividend var2 adc_P) / real_of_int var1\<rfloor>)"
  using assms
  by (simp add: press_quot_def floordiv_def pressure_of_def floor_divide_of_int_eq)

text \<open>
  With the calibration of \<open>neg_buf\<close> and ADC readings of 0 the dividend is negative and
  not a multiple of the divisor 16384: the quotient is the floor, one below the
  truncated quotient \<open>-30512550548043200\<close>.
\<close>

theorem pressure_division_floor_witness:
  "parse_calibration neg_buf = Inr neg_cal
   \<and> press_vars neg_cal (t_fine_of neg_cal 0) = (16384, 162225440831009983)
   \<and> press_dividend 162225440831009983 0 = - 499917628179139796875
   \<and> press_quot 16384 162225440831009983 0 = Inr (- 30512550548043201)
   \<and> \<lfloor>real_of_int (press_dividend 162225440831009983 0) / real_of_int 16384\<rfloor>
       = - 30512550548043201
   \<and> - 30512550548043201 * 16384 \<noteq> (- 499917628179139796875 :: int)"
proof -
  have v: "press_vars neg_cal (t_fine_of neg_cal 0) = (16384, 162225440831009983)"
    by (simp add: neg_t_fine neg_press_vars)
  have d: "press_dividend 162225440831009983 0 = - 499917628179139796875"
    by (simp add: press_dividend_def push_bit_eq_mult)
  have q: "press_quot 16384 162225440831009983 0 = Inr (- 30512550548043201)"
    by (simp add: press_quot_def floordiv_def d)
  have nz: "(16384 :: int) \<noteq> 0" by simp
  from pressure_division_floor [OF v nz, of 0] q
  have "\<lfloor>real_of_int (press_dividend 162225440831009983 0) / real_of_int 16384\<rfloor>
       = - 30512550548043201"
    by simp
  with v d q neg_cal_parsed show ?thesis by simp
qed

subsection \<open>Humidity: the clamp\<close>

lemma hum_clamp_bounds: "0 \<le> hum_clamp v \<and> hum_clamp v \<le> 419430400"
  by (simp add: hum_clamp_def)

lemma hum_shift_bounds: "0 \<le> drop_bit 12 (hum_clamp v) \<and> drop_bit 12 (hum_clamp v) \<le> 102400"
proof -
  have "0 \<le> hum_clamp v" "hum_clamp v \<le> 419430400"
    using hum_clamp_bounds [of v] by simp_all
  then have "0 \<le> hum_clamp v div 4096" "hum_clamp v div 4096 \<le> 102400"
    by simp_all
  then show ?thesis by (simp add: drop_bit_eq_div)
qed

text \<open>
  Claim C4. For every calibration set, every \<open>t_fine\<close> and every ADC humidity reading
  the computed humidity lies in \<open>[0, 102400 / 1024] = [0, 100]\<close>, and the clamp of line
  150 is a saturation: a value below 0 becomes 0, a value above 419430400 becomes
  419430400, any other value is kept. The last division is by a power of two, so the
  Python float is the exact quotient.
\<close>

theorem humidity_in_range:
  "0 \<le> humidity_of c t_fine adc_H \<and> humidity_of c t_fine adc_H \<le> 102400 / 1024
   \<and> (102400 / 1024 :: real) = 100
   \<and> hum_clamp v = (if v < 0 then 0 else if 419430400 < v then 419430400 else v)"
proof -
  let ?w = "drop_bit 12 (hum_clamp (hum_raw c t_fine adc_H))"
  have b: "0 \<le> ?w" "?w \<le> 102400"
    using hum_shift_bounds [of "hum_raw c t_fine adc_H"] by simp_all
  have h: "humidity_of c t_fine adc_H = real_of_int ?w / 1024"
    by (simp add: humidity_of_def)
  have "0 \<le> real_of_int ?w" "real_of_int ?w \<le> 102400"
    using b by simp_all
  then have "0 \<le> real_of_int ?w / 1024" "real_of_int ?w / 1024 \<le> 102400 / 1024"
    by simp_all
  then show ?thesis
    by (simp add: h hum_clamp_def)
qed

subsection \<open>Failures of the calibration parse\<close>

text \<open>
  Claim C6, as the code has it. The parse raises \<open>ValueError\<close> (the marker error)
  exactly when the buffer is not empty and its byte 0 is not \<open>0xFE\<close>. It succeeds
  exactly when byte 0 is \<open>0xFE\<close> and the buffer has at least 33 bytes. On every other
  buffer, that is the empty one and one that starts with \<open>0xFE\<close> and is shorter than
  33 bytes, it raises \<open>IndexError\<close>.
\<close>

theorem parse_failure_cases:
  "(parse_calibration data = Inl ValueError \<longleftrightarrow> data \<noteq> [] \<and> data ! 0 \<noteq> 0xFE)
   \<and> (parse_calibration data = Inl IndexError
        \<longleftrightarrow> data = [] \<or> (data ! 0 = 0xFE \<and> length data < 33))
   \<and> ((\<exists>c. parse_calibration data = Inr c)
        \<longleftrightarrow> data \<noteq> [] \<and> data ! 0 = 0xFE \<and> 33 \<le> length data)
   \<and> parse_calibration data \<noteq> Inl ZeroDivisionError"
  by (auto simp: parse_calibration_def Let_def)

theorem parse_failure_cases_witness:
  "parse_calibration [0x00] = Inl ValueError \<and> parse_calibration short_buf = Inl IndexError"
  using parse_failure_cases [of "[0x00]"] parse_failure_cases [of short_buf]
  by (simp add: short_buf_def)

text \<open>
  The buffer \<open>short_buf\<close> starts with the marker and has 3 bytes: the parse fails with
  \<open>IndexError\<close>, not with the marker error. So does the parse of the empty buffer.
\<close>

theorem short_buffer_counterexample:
  "length short_buf < 33 \<and> parse_calibration short_buf = Inl IndexError
   \<and> parse_calibration short_buf \<noteq> Inl ValueError
   \<and> parse_calibration [] = Inl IndexError"
  by (simp add: parse_calibration_def short_buf_def)

subsection \<open>The frame scan\<close>

lemma uint_byte_sentinel: "uint (b :: byte) \<noteq> 0xFF \<longleftrightarrow> b \<noteq> 0xFF"
proof -
  have "uint b = uint (0xFF :: byte) \<longleftrightarrow> b = 0xFF"
    by (rule word_uint_eq_iff [symmetric])
  then show ?thesis by simp
qed

lemma loop_body_skip:
  assumes "i st + 8 < length frames" and "frames ! i st \<noteq> 0xFF"
  shows "loop_body c frames st = Inr (st\<lparr>i := i st + 1\<rparr>)"
  using assms by (simp add: loop_body_def byte_at_def uint_byte_sentinel)

lemma loop_body_take:
  assumes "i st + 8 < length frames" and "frames ! i st = 0xFF"
  shows "loop_body c frames st = Inr (with_samples st (i st + 9) [sample_at c frames (i st)])"
  using assms
  by (simp add: loop_body_def byte_at_def read_adc_def compute_sample sample_at_def
      with_samples_def split: prod.splits)

lemma with_samples_nil: "with_samples st (i st) [] = st"
  by (simp add: with_samples_def)

lemma with_samples_twice:
  "with_samples (with_samples st k ms) k' ms' = with_samples st k' (ms @ ms')"
  by (simp add: with_samples_def)

lemma with_samples_i: "i (with_samples st k ms) = k"
  by (simp add: with_samples_def)

lemma scan_loop_result:
  "\<exists>k. scan_loop c frames st
        = Inr (with_samples st k (map (sample_at c frames) (frame_starts frames (i st))))"
proof (induction c frames st rule: scan_loop.induct)
  case (1 c frames st)
  show ?case
  proof (cases "i st + 8 < length frames")
    case False
    then have "scan_loop c frames st = Inr st" and "frame_starts frames (i st) = []"
      by (simp_all add: scan_loop.simps frame_starts.simps)
    then have "scan_loop c frames st
        = Inr (with_samples st (i st) (map (sample_at c frames) (frame_starts frames (i st))))"
      by (simp add: with_samples_nil)
    then show ?thesis ..
  next
    case inside: True
    show ?thesis
    proof (cases "frames ! i st = 0xFF")
      case False
      let ?st' = "st\<lparr>i := i st + 1\<rparr>"
      have body: "loop_body c frames st = Inr ?st'"
        using inside False by (rule loop_body_skip)
      from "1.IH" [OF inside body] obtain k where
        k: "scan_loop c frames ?st'
            = Inr (with_samples ?st' k (map (sample_at c frames) (frame_starts frames (i ?st'))))"
        by blast
      have fs: "frame_starts frames (i st) = frame_starts frames (i st + 1)"
        using inside False by (simp add: frame_starts.simps [of frames "i st"])
      have "scan_loop c frames st = scan_loop c frames ?st'"
        using inside body by (simp add: scan_loop.simps [of c frames st])
      also have "\<dots> = Inr (with_samples st k (map (sample_at c frames) (frame_starts frames (i st))))"
        using k by (simp add: fs with_samples_def)
      finally show ?thesis ..
    next
      case True
      let ?st' = "with_samples st (i st + 9) [sample_at c frames (i st)]"
      have body: "loop_body c frames st = Inr ?st'"
        using inside True by (rule loop_body_take)
      from "1.IH" [OF inside body] obtain k where
        k: "scan_loop c frames ?st'
            = Inr (with_samples ?st' k (map (sample_at c frames) (frame_starts frames (i ?st'))))"
        by blast
      have fs: "frame_starts frames (i st) = i st # frame_starts frames (i st + 9)"
        using inside True by (simp add: frame_starts.simps [of frames "i st"])
      have "scan_loop c frames st = scan_loop c frames ?st'"
        using inside body by (simp add: scan_loop.simps [of c frames st])
      also have "\<dots> = Inr (with_samples st k (map (sample_at c frames) (frame_starts frames (i st))))"
        using k by (simp add: fs with_samples_twice with_samples_i)
      finally show ?thesis ..
    qed
  qed
qed

lemma scan_init_result:
  "\<exists>k. scan_loop c frames init_state
        = Inr \<lparr> i = k, temperatures = map fst (measurements c frames),
                pressures = map (fst \<circ> snd) (measurements c frames),
                humidities = map (snd \<circ> snd) (measurements c frames) \<rparr>"
proof -
  from scan_loop_result [of c frames init_state] obtain k where
    "scan_loop c frames init_state
       = Inr (with_samples init_state k (map (sample_at c frames) (frame_starts frames 0)))"
    by (auto simp: init_state_def)
  then have "scan_loop c frames init_state
        = Inr \<lparr> i = k, temperatures = map fst (measurements c frames),
                pressures = map (fst \<circ> snd) (measurements c frames),
                humidities = map (snd \<circ> snd) (measurements c frames) \<rparr>"
    by (simp add: with_samples_def init_state_def measurements_def)
  then show ?thesis ..
qed

lemma scan_loop_step:
  assumes "i st + 8 < length frames" and "loop_body c frames st = Inr st'"
  shows "scan_loop c frames st = scan_loop c frames st'"
  using assms by (simp add: scan_loop.simps [of c frames st])

lemma scan_skips_noise:
  assumes "\<forall>b \<in> set ns. b \<noteq> 0xFF" and "8 < length rest" and "i st = length pre"
  shows "scan_loop c (pre @ ns @ rest) st
       = scan_loop c (pre @ ns @ rest) (st\<lparr>i := length pre + length ns\<rparr>)"
  using assms
proof (induction ns arbitrary: pre st)
  case Nil
  have "st\<lparr>i := length pre\<rparr> = st\<lparr>i := i st\<rparr>"
    using Nil.prems(3) by simp
  also have "\<dots> = st" by simp
  finally show ?case by simp
next
  case (Cons b ns)
  let ?frames = "pre @ (b # ns) @ rest"
  let ?st' = "st\<lparr>i := i st + 1\<rparr>"
  have inside: "i st + 8 < length ?frames"
    using Cons.prems by simp
  have "?frames ! i st = b"
    using Cons.prems by simp
  then have nosent: "?frames ! i st \<noteq> 0xFF"
    using Cons.prems by simp
  have body: "loop_body c ?frames st = Inr ?st'"
    using inside nosent by (rule loop_body_skip)
  have step: "scan_loop c ?frames st = scan_loop c ?frames ?st'"
    using inside body by (rule scan_loop_step)
  have "scan_loop c ((pre @ [b]) @ ns @ rest) ?st'
      = scan_loop c ((pre @ [b]) @ ns @ rest) (?st'\<lparr>i := length (pre @ [b]) + length ns\<rparr>)"
    using Cons.prems by (intro Cons.IH) simp_all
  with step show ?case by simp
qed

subsection \<open>Where frames are decoded\<close>

lemma frame_starts_props:
  "k \<in> set (frame_starts frames j) \<Longrightarrow> j \<le> k \<and> k + 8 < length frames \<and> frames ! k = 0xFF"
proof (induction frames j rule: frame_starts.induct)
  case (1 frames j)
  show ?case
  proof (cases "j + 8 < length frames")
    case False
    with "1.prems" show ?thesis by (simp add: frame_starts.simps [of frames j])
  next
    case inside: True
    show ?thesis
    proof (cases "frames ! j = 0xFF")
      case False
      with inside "1.prems" have "k \<in> set (frame_starts frames (j + 1))"
        by (simp add: frame_starts.simps [of frames j])
      from "1.IH"(1) [OF inside False this] show ?thesis by simp
    next
      case True
      with inside "1.prems" have "k = j \<or> k \<in> set (frame_starts frames (j + 9))"
        by (simp add: frame_starts.simps [of frames j])
      then show ?thesis
      proof
        assume "k = j" with inside True show ?thesis by simp
      next
        assume "k \<in> set (frame_starts frames (j + 9))"
        from "1.IH"(2) [OF inside _ this] True show ?thesis by simp
      qed
    qed
  qed
qed

lemma frame_starts_ascending: "sorted_wrt (<) (frame_starts frames j)"
proof (induction frames j rule: frame_starts.induct)
  case (1 frames j)
  show ?case
  proof (cases "j + 8 < length frames")
    case False
    then show ?thesis by (simp add: frame_starts.simps [of frames j])
  next
    case inside: True
    show ?thesis
    proof (cases "frames ! j = 0xFF")
      case False
      with inside "1.IH"(1) show ?thesis by (simp add: frame_starts.simps [of frames j])
    next
      case True
      have "\<forall>k \<in> set (frame_starts frames (j + 9)). j < k"
      proof
        fix k assume "k \<in> set (frame_starts frames (j + 9))"
        from frame_starts_props [OF this] show "j < k" by simp
      qed
      with inside True "1.IH"(2) show ?thesis by (simp add: frame_starts.simps [of frames j])
    qed
  qed
qed

lemma frame_starts_shift:
  "frame_starts (xs @ ys) (length xs + j) = map (\<lambda>k. length xs + k) (frame_starts ys j)"
proof (induction ys j rule: frame_starts.induct)
  case (1 ys j)
  show ?case
  proof (cases "j + 8 < length ys")
    case False
    then show ?thesis
      by (simp add: frame_starts.simps [of ys j] frame_starts.simps [of "xs @ ys" "length xs + j"])
  next
    case inside: True
    have nth: "(xs @ ys) ! (length xs + j) = ys ! j" by simp
    show ?thesis
    proof (cases "ys ! j = 0xFF")
      case False
      from "1.IH"(1) [OF inside False] inside False nth show ?thesis
        by (simp add: frame_starts.simps [of ys j]
            frame_starts.simps [of "xs @ ys" "length xs + j"] add.assoc)
    next
      case True
      from "1.IH"(2) [OF inside] inside True nth show ?thesis
        by (simp add: frame_starts.simps [of ys j]
            frame_starts.simps [of "xs @ ys" "length xs + j"] add.assoc)
    qed
  qed
qed

lemma read_adc_shift:
  assumes "j + 8 < length ys"
  shows "read_adc (xs @ ys) (length xs + j) = read_adc ys j"
  using assms by (simp add: read_adc_def nth_append)

lemma read_adc_prefix:
  assumes "j + 8 < length xs"
  shows "read_adc (xs @ ys) j = read_adc xs j"
  using assms by (simp add: read_adc_def nth_append)

lemma measurements_shift:
  "map (sample_at c (xs @ ys)) (frame_starts (xs @ ys) (length xs)) = measurements c ys"
proof -
  have "frame_starts (xs @ ys) (length xs) = map (\<lambda>k. length xs + k) (frame_starts ys 0)"
    using frame_starts_shift [of xs ys 0] by simp
  moreover have "sample_at c (xs @ ys) (length xs + k) = sample_at c ys k"
    if "k \<in> set (frame_starts ys 0)" for k
    using frame_starts_props [OF that] by (simp add: sample_at_def read_adc_shift)
  ultimately show ?thesis by (simp add: measurements_def)
qed

lemma measurements_short: "length bs \<le> 8 \<Longrightarrow> measurements c bs = []"
  by (simp add: measurements_def frame_starts.simps [of bs 0])

lemma measurements_noise:
  assumes "b \<noteq> 0xFF"
  shows "measurements c (b # ys) = measurements c ys"
proof (cases "8 < length (b # ys)")
  case False
  then show ?thesis by (simp add: measurements_short)
next
  case True
  with assms have "frame_starts (b # ys) 0 = frame_starts ([b] @ ys) (length [b])"
    by (simp add: frame_starts.simps [of "b # ys" 0])
  then have "measurements c (b # ys)
      = map (sample_at c ([b] @ ys)) (frame_starts ([b] @ ys) (length [b]))"
    by (simp add: measurements_def)
  then show ?thesis by (simp only: measurements_shift)
qed

lemma measurements_frame:
  assumes "length payload = 8"
  shows "measurements c ((0xFF # payload) @ ys) = frame_sample c payload # measurements c ys"
proof -
  let ?f = "0xFF # payload"
  have st: "frame_starts (?f @ ys) 0 = 0 # frame_starts (?f @ ys) (length ?f)"
    using assms by (simp add: frame_starts.simps [of "0xFF # payload @ ys" 0])
  have sa: "sample_at c (?f @ ys) 0 = frame_sample c payload"
    using assms read_adc_prefix [of 0 ?f ys] by (simp add: sample_at_def frame_sample_def)
  have "measurements c (?f @ ys) = map (sample_at c (?f @ ys)) (frame_starts (?f @ ys) 0)"
    by (simp only: measurements_def)
  also have "\<dots> = map (sample_at c (?f @ ys)) (0 # frame_starts (?f @ ys) (length ?f))"
    by (simp only: st)
  also have "\<dots> = frame_sample c payload
                  # map (sample_at c (?f @ ys)) (frame_starts (?f @ ys) (length ?f))"
    by (simp only: list.map sa)
  finally show ?thesis by (simp only: measurements_shift)
qed

lemma measurements_noise_run:
  "\<forall>b \<in> set ns. b \<noteq> 0xFF \<Longrightarrow> measurements c (ns @ ys) = measurements c ys"
  by (induction ns) (simp_all add: measurements_noise)

lemma measurements_render:
  "list_all wf_item items \<Longrightarrow>
   measurements c (render items @ ys) = map (frame_sample c) (payloads items) @ measurements c ys"
proof (induction items)
  case Nil
  then show ?case by (simp add: render_def)
next
  case (Cons it items)
  then have ih: "measurements c (render items @ ys)
      = map (frame_sample c) (payloads items) @ measurements c ys"
    by simp
  show ?case
  proof (cases it)
    case (Noise b)
    with Cons.prems have "b \<noteq> 0xFF" by simp
    then have "measurements c (b # render items @ ys) = measurements c (render items @ ys)"
      by (rule measurements_noise)
    with ih Noise show ?thesis by (simp add: render_def)
  next
    case (Frame payload)
    with Cons.prems have "length payload = 8" by simp
    then have "measurements c ((0xFF # payload) @ render items @ ys)
        = frame_sample c payload # measurements c (render items @ ys)"
      by (rule measurements_frame)
    with ih Frame show ?thesis by (simp add: render_def)
  qed
qed

subsection \<open>The example buffers, evaluated\<close>

lemma sample_cal_fields:
  "sample_cal = \<lparr>dig_T1 = 28105, dig_T2 = 26421, dig_T3 = 50, dig_P1 = 36255,
        dig_P2 = - 10687, dig_P3 = 3024, dig_P4 = 8167, dig_P5 = 6,
        dig_P6 = - 7, dig_P7 = 9900, dig_P8 = - 10230, dig_P9 = 4285,
        dig_H1 = 75, dig_H2 = 368, dig_H3 = 0, dig_H4 = 304, dig_H5 = 50,
        dig_H6 = 30\<rparr>"
  by (simp add: sample_cal_def sample_buf_def calib_fields_def cb_def u16_def s16_def
      push_bit_eq_mult drop_bit_eq_div)

lemma sample_cal_parsed: "parse_calibration sample_buf = Inr sample_cal"
  by (simp add: parse_calibration_def sample_cal_def sample_buf_def)

lemma sample_t_fine: "t_fine_of sample_cal 521184 = 115322"
  by (simp add: sample_cal_fields t_fine_of_def push_bit_eq_mult drop_bit_eq_div)

lemma sample_temperature: "temperature_of 115322 = 563 / 25"
  by (simp add: temperature_of_def drop_bit_eq_div)

lemma sample_press_vars: "press_vars sample_cal 115322 = (596352244, 280604887744772)"
  by (simp add: sample_cal_fields press_vars_def push_bit_eq_mult drop_bit_eq_div)

lemma sample_dividend: "press_dividend 280604887744772 383248 = 3588050352536787500"
  by (simp add: press_dividend_def push_bit_eq_mult)

lemma sample_pressure: "pressure_val sample_cal 115322 383248 = 183371 / 200"
  by (simp add: pressure_val_def sample_press_vars sample_dividend)
    (simp add: press_tail_def sample_cal_fields push_bit_eq_mult drop_bit_eq_div)

lemma sample_hum_raw: "hum_raw sample_cal 115322 30426 = 257681553"
  by (simp add: sample_cal_fields hum_raw_def push_bit_eq_mult drop_bit_eq_div)

lemma sample_humidity: "humidity_of sample_cal 115322 30426 = 31455 / 512"
  by (simp add: humidity_of_def sample_hum_raw hum_clamp_def drop_bit_eq_div)

lemma sample_first: "sample sample_cal (521184, 383248, 30426) = (563 / 25, 183371 / 200, 31455 / 512)"
  by (simp add: sample_def sample_t_fine sample_temperature sample_pressure sample_humidity)

lemma sample2_t_fine: "t_fine_of sample_cal 521344 = 115580"
  by (simp add: sample_cal_fields t_fine_of_def push_bit_eq_mult drop_bit_eq_div)

lemma sample2_temperature: "temperature_of 115580 = 2257 / 100"
  by (simp add: temperature_of_def drop_bit_eq_div)

lemma sample2_press_vars: "press_vars sample_cal 115580 = (596304255, 280605135971216)"
  by (simp add: sample_cal_fields press_vars_def push_bit_eq_mult drop_bit_eq_div)

lemma sample2_dividend: "press_dividend 280605135971216 383280 = 3587834828464350000"
  by (simp add: press_dividend_def push_bit_eq_mult)

lemma sample2_pressure: "pressure_val sample_cal 115580 383280 = 23471969 / 25600"
  by (simp add: pressure_val_def sample2_press_vars sample2_dividend)
    (simp add: press_tail_def sample_cal_fields push_bit_eq_mult drop_bit_eq_div)

lemma sample2_hum_raw: "hum_raw sample_cal 115580 30422 = 257619429"
  by (simp add: sample_cal_fields hum_raw_def push_bit_eq_mult drop_bit_eq_div)

lemma sample2_humidity: "humidity_of sample_cal 115580 30422 = 62895 / 1024"
  by (simp add: humidity_of_def sample2_hum_raw hum_clamp_def drop_bit_eq_div)

lemma sample_second:
  "sample sample_cal (521344, 383280, 30422) = (2257 / 100, 23471969 / 25600, 62895 / 1024)"
  by (simp add: sample_def sample2_t_fine sample2_temperature sample2_pressure sample2_humidity)

lemma spur_t_fine: "t_fine_of sample_cal 1046515 = 963493"
  by (simp add: sample_cal_fields t_fine_of_def push_bit_eq_mult drop_bit_eq_div)

lemma spur_temperature: "temperature_of 963493 = 9409 / 50"
  by (simp add: temperature_of_def drop_bit_eq_div)

lemma spur_press_vars: "press_vars sample_cal 963493 = (474443364, 276386701811089)"
  by (simp add: sample_cal_fields press_vars_def push_bit_eq_mult drop_bit_eq_div)

lemma spur_dividend: "press_dividend 276386701811089 1497 = 6163119777665946875"
  by (simp add: press_dividend_def push_bit_eq_mult)

lemma spur_pressure: "pressure_val sample_cal 963493 1497 = 25582821 / 12800"
  by (simp add: pressure_val_def spur_press_vars spur_dividend)
    (simp add: press_tail_def sample_cal_fields push_bit_eq_mult drop_bit_eq_div)

lemma spur_hum_raw: "hum_raw sample_cal 963493 118 = - 742898643"
  by (simp add: sample_cal_fields hum_raw_def push_bit_eq_mult drop_bit_eq_div)

lemma spur_humidity: "humidity_of sample_cal 963493 118 = 0"
  by (simp add: humidity_of_def spur_hum_raw hum_clamp_def drop_bit_eq_div)

lemma sample_spurious:
  "sample sample_cal (1046515, 1497, 118) = (9409 / 50, 25582821 / 12800, 0)"
  by (simp add: sample_def spur_t_fine spur_temperature spur_pressure spur_humidity)

lemma p1zero_cal_fields:
  "p1zero_cal = \<lparr>dig_T1 = 28105, dig_T2 = 26421, dig_T3 = 50, dig_P1 = 0,
        dig_P2 = - 10687, dig_P3 = 3024, dig_P4 = 8167, dig_P5 = 6,
        dig_P6 = - 7, dig_P7 = 9900, dig_P8 = - 10230, dig_P9 = 4285,
        dig_H1 = 75, dig_H2 = 368, dig_H3 = 0, dig_H4 = 304, dig_H5 = 50,
        dig_H6 = 30\<rparr>"
  by (simp add: p1zero_cal_def p1zero_buf_def calib_fields_def cb_def u16_def s16_def
      push_bit_eq_mult drop_bit_eq_div)

lemma p1zero_cal_parsed: "parse_calibration p1zero_buf = Inr p1zero_cal"
  by (simp add: parse_calibration_def p1zero_cal_def p1zero_buf_def)

lemma p1zero_t_fine: "t_fine_of p1zero_cal 521184 = 115322"
  by (simp add: p1zero_cal_fields t_fine_of_def push_bit_eq_mult drop_bit_eq_div)

lemma p1zero_press_vars: "press_vars p1zero_cal 115322 = (0, 280604887744772)"
  by (simp add: p1zero_cal_fields press_vars_def push_bit_eq_mult drop_bit_eq_div)

lemma p1zero_hum_raw: "hum_raw p1zero_cal 115322 30426 = 257681553"
  by (simp add: p1zero_cal_fields hum_raw_def push_bit_eq_mult drop_bit_eq_div)

lemma p1zero_humidity: "humidity_of p1zero_cal 115322 30426 = 31455 / 512"
  by (simp add: humidity_of_def p1zero_hum_raw hum_clamp_def drop_bit_eq_div)

lemma two_frames_adc0: "read_adc two_frames 0 = Inr (521184, 383248, 30426)"
  by (simp add: two_frames_def read_adc_def push_bit_eq_mult drop_bit_eq_div)

lemma two_frames_adc9: "read_adc two_frames 9 = Inr (521184, 383248, 30426)"
  by (simp add: two_frames_def read_adc_def push_bit_eq_mult drop_bit_eq_div)

lemma measurements_genuine:
  "measurements c genuine_frame = [sample c (521184, 383248, 30426)]"
proof -
  have f: "frame_starts genuine_frame 0 = [0]"
    by (simp add: genuine_frame_def frame_starts.simps [of _ 0] frame_starts.simps [of _ 9])
  have r: "read_adc genuine_frame 0 = Inr (521184, 383248, 30426)"
    by (simp add: genuine_frame_def read_adc_def push_bit_eq_mult drop_bit_eq_div)
  show ?thesis by (simp add: measurements_def f sample_at_def r)
qed

lemma measurements_spurious:
  "measurements c (0xFF # genuine_frame) = [sample c (1046515, 1497, 118)]"
proof -
  have f: "frame_starts (0xFF # genuine_frame) 0 = [0]"
    by (simp add: genuine_frame_def frame_starts.simps [of _ 0] frame_starts.simps [of _ 9])
  have r: "read_adc (0xFF # genuine_frame) 0 = Inr (1046515, 1497, 118)"
    by (simp add: genuine_frame_def read_adc_def push_bit_eq_mult drop_bit_eq_div)
  show ?thesis by (simp add: measurements_def f sample_at_def r)
qed

lemma sample_frames_starts: "frame_starts (drop 33 sample_buf) 0 = [0, 9]"
  by (simp add: sample_buf_def frame_starts.simps [of _ 0] frame_starts.simps [of _ 9]
      frame_starts.simps [of _ 18])

lemma sample_frames_adc0: "read_adc (drop 33 sample_buf) 0 = Inr (521184, 383248, 30426)"
  by (simp add: sample_buf_def read_adc_def push_bit_eq_mult drop_bit_eq_div)

lemma sample_frames_adc9: "read_adc (drop 33 sample_buf) 9 = Inr (521344, 383280, 30422)"
  by (simp add: sample_buf_def read_adc_def push_bit_eq_mult drop_bit_eq_div)

subsection \<open>Pressure: the zero divisor\<close>

text \<open>
  Claim C5. When \<open>var1\<close> is 0 after line 132, the computation of the frame raises
  nothing and gives the pressure 0 (the integer 0 in the script, equal to \<open>0.0\<close>)
  beside the temperature and the humidity of the frame. In the loop, the three values
  are appended, the cursor moves 9 bytes on, the scan goes on from there, and the scan
  as a whole returns without an error.
\<close>

theorem zero_var1_pressure_sentinel:
  assumes "fst (press_vars c (t_fine_of c adc_T)) = 0"
  shows "compute c (adc_T, adc_P, adc_H)
           = Inr (temperature_of (t_fine_of c adc_T), 0, humidity_of c (t_fine_of c adc_T) adc_H)
       \<and> (i st + 8 < length frames \<and> frames ! i st = 0xFF
            \<and> read_adc frames (i st) = Inr (adc_T, adc_P, adc_H)
          \<longrightarrow> loop_body c frames st
                = Inr (st\<lparr>temperatures := temperatures st @ [temperature_of (t_fine_of c adc_T)],
                          pressures := pressures st @ [0],
                          humidities := humidities st @ [humidity_of c (t_fine_of c adc_T) adc_H],
                          i := i st + 9\<rparr>)
              \<and> scan_loop c frames st
                = scan_loop c frames
                    (st\<lparr>temperatures := temperatures st @ [temperature_of (t_fine_of c adc_T)],
                        pressures := pressures st @ [0],
                        humidities := humidities st @ [humidity_of c (t_fine_of c adc_T) adc_H],
                        i := i st + 9\<rparr>))
       \<and> (\<exists>st'. scan_loop c frames st = Inr st')"
proof -
  have p: "pressure_val c (t_fine_of c adc_T) adc_P = 0"
    using assms by (cases "press_vars c (t_fine_of c adc_T)") (simp add: pressure_val_def)
  have m: "sample c (adc_T, adc_P, adc_H)
      = (temperature_of (t_fine_of c adc_T), 0, humidity_of c (t_fine_of c adc_T) adc_H)"
    by (simp add: sample_def p)
  have a: "compute c (adc_T, adc_P, adc_H)
      = Inr (temperature_of (t_fine_of c adc_T), 0, humidity_of c (t_fine_of c adc_T) adc_H)"
    by (simp add: compute_sample m)
  have b: "loop_body c frames st
                = Inr (st\<lparr>temperatures := temperatures st @ [temperature_of (t_fine_of c adc_T)],
                          pressures := pressures st @ [0],
                          humidities := humidities st @ [humidity_of c (t_fine_of c adc_T) adc_H],
                          i := i st + 9\<rparr>)"
    if "i st + 8 < length frames" "frames ! i st = 0xFF"
      "read_adc frames (i st) = Inr (adc_T, adc_P, adc_H)"
    using that by (simp add: loop_body_take sample_at_def m with_samples_def)
  have c: "scan_loop c frames st = scan_loop c frames st'"
    if "i st + 8 < length frames" "loop_body c frames st = Inr st'" for st'
    using that by (rule scan_loop_step)
  have d: "\<exists>st'. scan_loop c frames st = Inr st'"
    using scan_loop_result [of c frames st] by blast
  show ?thesis using a b c d by blast
qed

text \<open>
  With P1 = 0 the divisor is 0 for every frame: the buffer \<open>two_frames\<close> gives two
  measurements, both with pressure 0.
\<close>

theorem zero_var1_pressure_sentinel_witness:
  "parse_calibration p1zero_buf = Inr p1zero_cal
   \<and> fst (press_vars p1zero_cal (t_fine_of p1zero_cal 521184)) = 0
   \<and> compute p1zero_cal (521184, 383248, 30426) = Inr (563 / 25, 0, 31455 / 512)
   \<and> read_adc two_frames 0 = Inr (521184, 383248, 30426)
   \<and> loop_body p1zero_cal two_frames init_state
       = Inr \<lparr> i = 9, temperatures = [563 / 25], pressures = [0], humidities = [31455 / 512] \<rparr>
   \<and> scan_loop p1zero_cal two_frames init_state
       = Inr \<lparr> i = 18, temperatures = [563 / 25, 563 / 25], pressures = [0, 0],
               humidities = [31455 / 512, 31455 / 512] \<rparr>"
proof -
  let ?st1 = "\<lparr> i = 9, temperatures = [563 / 25], pressures = [0 :: real],
                 humidities = [31455 / 512] \<rparr>"
  let ?st2 = "\<lparr> i = 18, temperatures = [563 / 25, 563 / 25], pressures = [0 :: real, 0],
                 humidities = [31455 / 512, 31455 / 512] \<rparr>"
  have z: "fst (press_vars p1zero_cal (t_fine_of p1zero_cal 521184)) = 0"
    by (simp add: p1zero_t_fine p1zero_press_vars)
  note ev = p1zero_t_fine sample_temperature p1zero_humidity
  have g0: "i init_state + 8 < length two_frames \<and> two_frames ! i init_state = 0xFF
            \<and> read_adc two_frames (i init_state) = Inr (521184, 383248, 30426)"
    by (simp add: init_state_def two_frames_adc0) (simp add: two_frames_def)
  have g1: "i ?st1 + 8 < length two_frames \<and> two_frames ! i ?st1 = 0xFF
            \<and> read_adc two_frames (i ?st1) = Inr (521184, 383248, 30426)"
    by (simp add: two_frames_adc9) (simp add: two_frames_def)
  from zero_var1_pressure_sentinel [OF z, of 383248 30426 init_state two_frames] g0
  have a: "compute p1zero_cal (521184, 383248, 30426) = Inr (563 / 25, 0, 31455 / 512)"
    and b: "loop_body p1zero_cal two_frames init_state = Inr ?st1"
    and s1: "scan_loop p1zero_cal two_frames init_state = scan_loop p1zero_cal two_frames ?st1"
    by (simp_all add: ev init_state_def)
  from zero_var1_pressure_sentinel [OF z, of 383248 30426 ?st1 two_frames] g1
  have s2: "scan_loop p1zero_cal two_frames ?st1 = scan_loop p1zero_cal two_frames ?st2"
    by (simp add: ev)
  have s3: "scan_loop p1zero_cal two_frames ?st2 = Inr ?st2"
    by (simp add: scan_loop.simps [of _ _ ?st2] two_frames_def)
  show ?thesis using z a b s1 s2 s3 by (simp add: two_frames_adc0 p1zero_cal_parsed)
qed

subsection \<open>A truncated last frame\<close>

text \<open>
  Claim C7. Take a buffer made of complete frames and noise bytes other than \<open>0xFF\<close>,
  followed by a last marker \<open>0xFF\<close> with fewer than 8 bytes behind it. With \<open>n\<close> the
  number of frame markers (one for each complete frame and the last one), the scan
  returns without an error and each of its three lists has exactly \<open>n - 1\<close> entries:
  the values of the complete frames, in order. The fragment contributes nothing.
\<close>

theorem truncated_tail_dropped:
  assumes "list_all wf_item items" and "length tail < 8"
    and "n = Suc (length (payloads items))"
  shows "\<exists>st'. scan_loop c (render items @ 0xFF # tail) init_state = Inr st'
       \<and> length (temperatures st') = n - 1
       \<and> length (pressures st') = n - 1
       \<and> length (humidities st') = n - 1
       \<and> temperatures st' = map (fst \<circ> frame_sample c) (payloads items)
       \<and> pressures st' = map (fst \<circ> snd \<circ> frame_sample c) (payloads items)
       \<and> humidities st' = map (snd \<circ> snd \<circ> frame_sample c) (payloads items)"
proof -
  have "measurements c (0xFF # tail) = []"
    using assms(2) by (simp add: measurements_short)
  then have ms: "measurements c (render items @ 0xFF # tail) = map (frame_sample c) (payloads items)"
    using measurements_render [OF assms(1), of c "0xFF # tail"] by simp
  from scan_init_result [of c "render items @ 0xFF # tail"] obtain k where
    "scan_loop c (render items @ 0xFF # tail) init_state
       = Inr \<lparr> i = k, temperatures = map fst (measurements c (render items @ 0xFF # tail)),
               pressures = map (fst \<circ> snd) (measurements c (render items @ 0xFF # tail)),
               humidities = map (snd \<circ> snd) (measurements c (render items @ 0xFF # tail)) \<rparr>"
    by blast
  with ms assms(3) show ?thesis by (simp add: comp_def)
qed

theorem truncated_tail_dropped_witness:
  "list_all wf_item [Frame genuine_payload, Noise 0x00, Frame genuine_payload]
   \<and> length [0x7F, 0x3E :: byte] < 8
   \<and> (\<exists>st'. scan_loop sample_cal
              (render [Frame genuine_payload, Noise 0x00, Frame genuine_payload]
               @ 0xFF # [0x7F, 0x3E]) init_state = Inr st'
          \<and> length (temperatures st') = 2
          \<and> length (pressures st') = 2
          \<and> length (humidities st') = 2)"
proof -
  have w: "list_all wf_item [Frame genuine_payload, Noise 0x00, Frame genuine_payload]"
    by (simp add: genuine_payload_def)
  have t: "length [0x7F, 0x3E :: byte] < 8" by simp
  have n: "(3 :: nat) = Suc (length (payloads [Frame genuine_payload, Noise 0x00, Frame genuine_payload]))"
    by simp
  from truncated_tail_dropped [OF w t n, of sample_cal] w t show ?thesis
    by auto
qed

subsection \<open>Resynchronisation\<close>

text \<open>
  Claim C8. After a well-formed stretch of frames and noise, inserting any run
  \<open>ns\<close> of bytes other than \<open>0xFF\<close> before the rest of the buffer leaves the
  three lists as they are without the run: the values of the frames before it, then
  those of the rest, unchanged. At a cursor whose byte is not \<open>0xFF\<close> (and with 8
  bytes behind it) one pass of the loop moves the cursor by exactly one byte and
  changes nothing else; with a complete frame's worth of bytes behind the run, the
  scan from the start of the run is the scan from its end.
\<close>

theorem resync_after_noise:
  assumes "list_all wf_item items" and "\<forall>b \<in> set ns. b \<noteq> 0xFF"
  shows "(\<exists>k k'. scan_loop c (render items @ ns @ rest) init_state
               = Inr \<lparr> i = k,
                   temperatures = map fst (map (frame_sample c) (payloads items) @ measurements c rest),
                   pressures = map (fst \<circ> snd) (map (frame_sample c) (payloads items) @ measurements c rest),
                   humidities = map (snd \<circ> snd) (map (frame_sample c) (payloads items) @ measurements c rest) \<rparr>
             \<and> scan_loop c (render items @ rest) init_state
               = Inr \<lparr> i = k',
                   temperatures = map fst (map (frame_sample c) (payloads items) @ measurements c rest),
                   pressures = map (fst \<circ> snd) (map (frame_sample c) (payloads items) @ measurements c rest),
                   humidities = map (snd \<circ> snd) (map (frame_sample c) (payloads items) @ measurements c rest) \<rparr>)
       \<and> (i st + 8 < length frames \<and> frames ! i st \<noteq> 0xFF
            \<longrightarrow> loop_body c frames st = Inr (st\<lparr>i := i st + 1\<rparr>))
       \<and> (8 < length rest \<and> i st = length pre
            \<longrightarrow> scan_loop c (pre @ ns @ rest) st
                = scan_loop c (pre @ ns @ rest) (st\<lparr>i := length pre + length ns\<rparr>))"
proof -
  have "measurements c (ns @ rest) = measurements c rest"
    using assms(2) by (rule measurements_noise_run)
  then have m1: "measurements c (render items @ ns @ rest)
      = map (frame_sample c) (payloads items) @ measurements c rest"
    using measurements_render [OF assms(1), of c "ns @ rest"] by simp
  have m2: "measurements c (render items @ rest)
      = map (frame_sample c) (payloads items) @ measurements c rest"
    using assms(1) by (rule measurements_render)
  have a: "\<exists>k k'. scan_loop c (render items @ ns @ rest) init_state
               = Inr \<lparr> i = k,
                   temperatures = map fst (map (frame_sample c) (payloads items) @ measurements c rest),
                   pressures = map (fst \<circ> snd) (map (frame_sample c) (payloads items) @ measurements c rest),
                   humidities = map (snd \<circ> snd) (map (frame_sample c) (payloads items) @ measurements c rest) \<rparr>
             \<and> scan_loop c (render items @ rest) init_state
               = Inr \<lparr> i = k',
                   temperatures = map fst (map (frame_sample c) (payloads items) @ measurements c rest),
                   pressures = map (fst \<circ> snd) (map (frame_sample c) (payloads items) @ measurements c rest),
                   humidities = map (snd \<circ> snd) (map (frame_sample c) (payloads items) @ measurements c rest) \<rparr>"
    using scan_init_result [of c "render items @ ns @ rest"]
      scan_init_result [of c "render items @ rest"]
    unfolding m1 m2 by blast
  have b: "loop_body c frames st = Inr (st\<lparr>i := i st + 1\<rparr>)"
    if "i st + 8 < length frames" "frames ! i st \<noteq> 0xFF"
    using that by (rule loop_body_skip)
  have c: "scan_loop c (pre @ ns @ rest) st
                = scan_loop c (pre @ ns @ rest) (st\<lparr>i := length pre + length ns\<rparr>)"
    if "8 < length rest" "i st = length pre"
    using assms(2) that by (rule scan_skips_noise)
  show ?thesis using a b c by blast
qed

text \<open>
  The first frame of the capture, two noise bytes, and the frame again: the two noise
  bytes change neither list, each is passed in one step of one byte, and the scan
  from cursor 9 is the scan from cursor 11.
\<close>

theorem resync_after_noise_witness:
  "list_all wf_item [Frame genuine_payload]
   \<and> (0x00 :: byte) \<noteq> 0xFF \<and> (0x17 :: byte) \<noteq> 0xFF
   \<and> render [Frame genuine_payload] = genuine_frame
   \<and> (\<exists>k k'. scan_loop sample_cal (genuine_frame @ [0x00, 0x17] @ genuine_frame) init_state
               = Inr \<lparr> i = k, temperatures = [563 / 25, 563 / 25],
                       pressures = [183371 / 200, 183371 / 200],
                       humidities = [31455 / 512, 31455 / 512] \<rparr>
             \<and> scan_loop sample_cal (genuine_frame @ genuine_frame) init_state
               = Inr \<lparr> i = k', temperatures = [563 / 25, 563 / 25],
                       pressures = [183371 / 200, 183371 / 200],
                       humidities = [31455 / 512, 31455 / 512] \<rparr>)
   \<and> loop_body sample_cal (genuine_frame @ [0x00, 0x17] @ genuine_frame)
         \<lparr> i = 9, temperatures = [563 / 25], pressures = [183371 / 200],
           humidities = [31455 / 512] \<rparr>
       = Inr \<lparr> i = 10, temperatures = [563 / 25], pressures = [183371 / 200],
               humidities = [31455 / 512] \<rparr>
   \<and> scan_loop sample_cal (genuine_frame @ [0x00, 0x17] @ genuine_frame)
         \<lparr> i = 9, temperatures = [563 / 25], pressures = [183371 / 200],
           humidities = [31455 / 512] \<rparr>
       = scan_loop sample_cal (genuine_frame @ [0x00, 0x17] @ genuine_frame)
           \<lparr> i = 11, temperatures = [563 / 25], pressures = [183371 / 200],
             humidities = [31455 / 512] \<rparr>"
proof -
  let ?st = "\<lparr> i = 9, temperatures = [563 / 25], pressures = [183371 / 200 :: real],
                humidities = [31455 / 512] \<rparr>"
  let ?frames = "genuine_frame @ [0x00, 0x17] @ genuine_frame"
  have w: "list_all wf_item [Frame genuine_payload]"
    by (simp add: genuine_payload_def)
  have ns: "\<forall>b \<in> set [0x00, 0x17 :: byte]. b \<noteq> 0xFF" by simp
  have rd: "render [Frame genuine_payload] = genuine_frame"
    by (simp add: render_def genuine_payload_def genuine_frame_def)
  have r: "read_adc (0xFF # genuine_payload) 0 = Inr (521184, 383248, 30426)"
    by (simp add: genuine_payload_def read_adc_def push_bit_eq_mult drop_bit_eq_div)
  have fs: "frame_sample sample_cal genuine_payload = (563 / 25, 183371 / 200, 31455 / 512)"
    by (simp add: frame_sample_def sample_at_def r sample_first)
  have m: "measurements sample_cal genuine_frame = [(563 / 25, 183371 / 200, 31455 / 512)]"
    by (simp add: measurements_genuine sample_first)
  have g1: "i ?st + 8 < length ?frames \<and> ?frames ! i ?st \<noteq> 0xFF"
    by (simp add: genuine_frame_def)
  have g2: "8 < length genuine_frame \<and> i ?st = length genuine_frame"
    by (simp add: genuine_frame_def)
  from resync_after_noise [OF w ns, where c = sample_cal and rest = genuine_frame
      and st = ?st and frames = ?frames and pre = genuine_frame] g1 g2
  show ?thesis
    by (simp add: fs m rd w) (simp add: genuine_frame_def genuine_payload_def)
qed

subsection \<open>Order of the series\<close>

text \<open>
  Claim C9. From any state, the scan returns the state's three lists with one entry
  appended per decoded frame and nothing removed: the entries are the values of the
  frames at the cursor positions \<open>frame_starts\<close>, which are strictly increasing, so
  the order of the entries is the order of the frames in the buffer; each such
  position holds the marker and has 8 bytes behind it.
\<close>

theorem series_order_preserved:
  "(\<exists>k. scan_loop c frames st
        = Inr (st\<lparr>temperatures := temperatures st
                     @ map fst (map (sample_at c frames) (frame_starts frames (i st))),
                  pressures := pressures st
                     @ map (fst \<circ> snd) (map (sample_at c frames) (frame_starts frames (i st))),
                  humidities := humidities st
                     @ map (snd \<circ> snd) (map (sample_at c frames) (frame_starts frames (i st))),
                  i := k\<rparr>))
   \<and> sorted_wrt (<) (frame_starts frames (i st))
   \<and> list_all (\<lambda>j. i st \<le> j \<and> j + 8 < length frames \<and> frames ! j = 0xFF)
        (frame_starts frames (i st))"
proof -
  have a: "\<exists>k. scan_loop c frames st
        = Inr (st\<lparr>temperatures := temperatures st
                     @ map fst (map (sample_at c frames) (frame_starts frames (i st))),
                  pressures := pressures st
                     @ map (fst \<circ> snd) (map (sample_at c frames) (frame_starts frames (i st))),
                  humidities := humidities st
                     @ map (snd \<circ> snd) (map (sample_at c frames) (frame_starts frames (i st))),
                  i := k\<rparr>)"
    using scan_loop_result [of c frames st] unfolding with_samples_def .
  have b: "sorted_wrt (<) (frame_starts frames (i st))"
    by (rule frame_starts_ascending)
  have c: "list_all (\<lambda>j. i st \<le> j \<and> j + 8 < length frames \<and> frames ! j = 0xFF)
        (frame_starts frames (i st))"
    unfolding list_all_iff using frame_starts_props [of _ frames "i st"] by blast
  show ?thesis using a b c by blast
qed

text \<open>The first two frames of the script's capture, with the values the script prints.\<close>

theorem series_order_preserved_witness:
  "parse_calibration sample_buf = Inr sample_cal
   \<and> frame_starts (drop 33 sample_buf) (i init_state) = [0, 9]
   \<and> (\<exists>k. scan_loop sample_cal (drop 33 sample_buf) init_state
         = Inr \<lparr> i = k, temperatures = [563 / 25, 2257 / 100],
                 pressures = [183371 / 200, 23471969 / 25600],
                 humidities = [31455 / 512, 62895 / 1024] \<rparr>)
   \<and> sorted_wrt (<) [0, 9 :: nat]"
proof -
  have f: "frame_starts (drop 33 sample_buf) (i init_state) = [0, 9]"
    by (simp add: init_state_def sample_frames_starts)
  have s0: "sample_at sample_cal (drop 33 sample_buf) 0 = (563 / 25, 183371 / 200, 31455 / 512)"
    by (simp add: sample_at_def sample_frames_adc0 sample_first)
  have s9: "sample_at sample_cal (drop 33 sample_buf) 9
      = (2257 / 100, 23471969 / 25600, 62895 / 1024)"
    by (simp add: sample_at_def sample_frames_adc9 sample_second)
  from series_order_preserved [of sample_cal "drop 33 sample_buf" init_state]
  show ?thesis
    unfolding f by (simp add: s0 s9 init_state_def sample_cal_parsed)
qed

subsection \<open>Only the marker is checked\<close>

text \<open>
  Claim C10. At every cursor whose byte is \<open>0xFF\<close> with at least 8 bytes behind it,
  one pass of the loop reads an ADC triplet, appends its three values and moves the
  cursor by 9, whatever the 8 bytes are. So a noise byte \<open>0xFF\<close> in front of a
  genuine frame is taken as a frame start: the scan of the two gives one measurement,
  computed from the genuine frame's marker and its first 7 payload bytes, and the
  genuine frame's own measurement is not produced.
\<close>

theorem sentinel_only_detection:
  assumes "i st + 8 < length frames" and "frames ! i st = 0xFF"
  shows "(\<exists>adc. read_adc frames (i st) = Inr adc
           \<and> loop_body c frames st
             = Inr (st\<lparr>temperatures := temperatures st @ [fst (sample c adc)],
                       pressures := pressures st @ [fst (snd (sample c adc))],
                       humidities := humidities st @ [snd (snd (sample c adc))],
                       i := i st + 9\<rparr>))
       \<and> measurements c (0xFF # genuine_frame) = [sample c (1046515, 1497, 118)]
       \<and> measurements c genuine_frame = [sample c (521184, 383248, 30426)]"
proof -
  have r: "read_adc frames (i st) = Inr (projr (read_adc frames (i st)))"
    using assms(1) by (simp add: read_adc_def)
  have a: "\<exists>adc. read_adc frames (i st) = Inr adc
           \<and> loop_body c frames st
             = Inr (st\<lparr>temperatures := temperatures st @ [fst (sample c adc)],
                       pressures := pressures st @ [fst (snd (sample c adc))],
                       humidities := humidities st @ [snd (snd (sample c adc))],
                       i := i st + 9\<rparr>)"
    using r loop_body_take [OF assms, of c]
    by (intro exI [of _ "projr (read_adc frames (i st))"])
      (simp add: sample_at_def with_samples_def)
  show ?thesis using a measurements_spurious [of c] measurements_genuine [of c] by blast
qed

theorem sentinel_only_detection_witness:
  "i init_state + 8 < length (0xFF # genuine_frame)
   \<and> (0xFF # genuine_frame) ! i init_state = 0xFF
   \<and> read_adc (0xFF # genuine_frame) (i init_state) = Inr (1046515, 1497, 118)
   \<and> loop_body sample_cal (0xFF # genuine_frame) init_state
       = Inr \<lparr> i = 9, temperatures = [9409 / 50], pressures = [25582821 / 12800],
               humidities = [0] \<rparr>
   \<and> measurements sample_cal (0xFF # genuine_frame) = [(9409 / 50, 25582821 / 12800, 0)]
   \<and> measurements sample_cal genuine_frame = [(563 / 25, 183371 / 200, 31455 / 512)]"
proof -
  have g: "i init_state + 8 < length (0xFF # genuine_frame)"
    by (simp add: init_state_def genuine_frame_def)
  have h: "(0xFF # genuine_frame) ! i init_state = 0xFF"
    by (simp add: init_state_def)
  have r: "read_adc (0xFF # genuine_frame) (i init_state) = Inr (1046515, 1497, 118)"
    by (simp add: init_state_def genuine_frame_def read_adc_def push_bit_eq_mult drop_bit_eq_div)
  from sentinel_only_detection [OF g h, of sample_cal] g h r show ?thesis
    by (simp add: sample_spurious sample_first init_state_def)
qed

end
